theory Spec2Isabelle
  imports Main "HOL-Library.AList"
begin

section \<open>Python values and dictionaries\<close>

text \<open>
  The published record of a device is a Python \<^verbatim>\<open>Dict[str, Any]\<close>: its values are
  strings, numbers, booleans, lists, timestamps and \<^verbatim>\<open>None\<close>. \<open>pyval\<close> is the type
  of these values. A finite float is \<open>PFloat m e\<close> (the number \<open>m * 2 ^ e\<close>); a
  \<^verbatim>\<open>datetime\<close> is \<open>PDatetime t\<close>, the microseconds \<open>t\<close> on the clock's own axis.
\<close>

datatype pyval =
    PNone
  | PBool bool
  | PInt int
  | PFloat int int
  | PStr string
  | PList "pyval list"
  | PDatetime int

text \<open>Python's truth value testing, as \<^verbatim>\<open>if x:\<close> and \<^verbatim>\<open>x or y\<close> apply it.\<close>

fun truthy :: "pyval \<Rightarrow> bool" where
  "truthy PNone = False"
| "truthy (PBool b) = b"
| "truthy (PInt n) = (n \<noteq> 0)"
| "truthy (PFloat m e) = (m \<noteq> 0)"
| "truthy (PStr s) = (s \<noteq> [])"
| "truthy (PList xs) = (xs \<noteq> [])"
| "truthy (PDatetime t) = True"

definition py_or :: "pyval \<Rightarrow> pyval \<Rightarrow> pyval" where
  "py_or x y = (if truthy x then x else y)"

text \<open>
  A \<^verbatim>\<open>dict\<close> with string keys is an association list in insertion order with distinct
  keys. \<^verbatim>\<open>d[k] = v\<close> is \<^const>\<open>AList.update\<close>: it replaces the value of a key that is
  present, in place, and appends a new key at the end. \<^verbatim>\<open>d.update(other)\<close> stores
  the items of \<open>other\<close> one after the other.
\<close>

type_synonym 'v py_dict = "(string \<times> 'v) list"

definition dict_update :: "'v py_dict \<Rightarrow> 'v py_dict \<Rightarrow> 'v py_dict" where
  "dict_update d other = foldl (\<lambda>acc (k, v). AList.update k v acc) d other"

definition dict_keys :: "'v py_dict \<Rightarrow> string list" where
  "dict_keys d = map fst d"

definition dict_get :: "'v py_dict \<Rightarrow> string \<Rightarrow> 'v option" where
  "dict_get d k = map_of d k"

section \<open>The device object of the link layer\<close>

text \<open>
  Modelled from the spec: the classes \<^verbatim>\<open>EVSE\<close> and \<^verbatim>\<open>Communicator\<close> of the module
  \<^verbatim>\<open>protocol\<close>, which \<^verbatim>\<open>evse_client.py\<close> imports and which is not among the sources.
  The spec (section 6) gives the contract: each device exposes identity fields, a
  \<^verbatim>\<open>lastSeen\<close> timestamp, connectivity predicates, electrical, thermal and error
  fields, a derived operational-state label, optional active-session fields and a
  configuration block. The field names are those \<^verbatim>\<open>_evse_to_dict\<close> reads (\<open>info_serial\<close>
  is \<^verbatim>\<open>info.serial\<close>, \<open>config_max_electricity\<close> is \<^verbatim>\<open>config.max_electricity\<close>). A field
  that the client only copies is a \<open>pyval\<close>, whatever the link layer puts there; the
  two \<^verbatim>\<open>max_electricity\<close> fields, which \<^verbatim>\<open>start_charging\<close> compares with \<open>0\<close> and
  sends as amperes, are integers. \<open>state\<close> and \<open>current_charge\<close> are objects or
  \<^verbatim>\<open>None\<close>; an object is truthy. The results of the methods \<^verbatim>\<open>is_online()\<close>,
  \<^verbatim>\<open>is_logged_in()\<close> and \<^verbatim>\<open>get_meta_state()\<close> at the time of the call are the
  fields \<open>online\<close>, \<open>logged_in\<close> and \<open>meta_state\<close>.
\<close>

record evse_info =
  info_serial :: pyval
  ip :: pyval
  port :: pyval
  brand :: pyval
  model :: pyval
  hardware_version :: pyval
  software_version :: pyval
  max_power :: pyval
  max_electricity :: int
  phases :: pyval

record evse_config =
  name :: pyval
  config_max_electricity :: int
  temperature_unit :: pyval

record evse_state =
  current_power :: pyval
  l1_voltage :: pyval
  l2_voltage :: pyval
  l3_voltage :: pyval
  l1_electricity :: pyval
  l2_electricity :: pyval
  l3_electricity :: pyval
  inner_temp :: pyval
  outer_temp :: pyval
  gun_state :: pyval
  output_state :: pyval
  errors :: pyval

record charge_record =
  charge_kwh :: pyval
  charge_id :: pyval
  start_date :: pyval
  duration_seconds :: pyval
  current_state :: pyval

record evse =
  info :: evse_info
  config :: evse_config
  state :: "evse_state option"
  current_charge :: "charge_record option"
  last_seen :: pyval
  online :: bool
  logged_in :: bool
  meta_state :: pyval

section \<open>The projection of a device to its published record\<close>

text \<open>
  \<^verbatim>\<open>EVSEClient._evse_to_dict\<close> (evse_client.py, lines 63 to 140). The method
  builds the dictionary from three literals: the identity and configuration block of
  lines 65 to 87, the electrical block of lines 90 to 120 and the session block of
  lines 123 to 138; the last two are stored with \<^verbatim>\<open>data.update\<close>.
\<close>

definition info_items :: "evse \<Rightarrow> pyval py_dict" where
  "info_items e =
     [(''serial'', info_serial (info e)),
      (''ip'', ip (info e)),
      (''port'', port (info e)),
      (''last_seen'', last_seen e),
      (''online'', PBool (online e)),
      (''logged_in'', PBool (logged_in e)),
      (''state'', meta_state e),
      (''brand'', brand (info e)),
      (''model'', model (info e)),
      (''hardware_version'', hardware_version (info e)),
      (''software_version'', software_version (info e)),
      (''max_power'', max_power (info e)),
      (''max_electricity'', PInt (max_electricity (info e))),
      (''phases'', phases (info e)),
      (''name'', py_or (name (config e)) (PStr ''EVSEMaster'')),
      (''configured_max_electricity'', PInt (config_max_electricity (config e))),
      (''temperature_unit'', temperature_unit (config e))]"

definition state_items :: "evse_state option \<Rightarrow> pyval py_dict" where
  "state_items s =
     (case s of
        Some st \<Rightarrow>
          [(''current_power'', current_power st),
           (''voltage_l1'', l1_voltage st),
           (''voltage_l2'', l2_voltage st),
           (''voltage_l3'', l3_voltage st),
           (''current_l1'', l1_electricity st),
           (''current_l2'', l2_electricity st),
           (''current_l3'', l3_electricity st),
           (''temperature_inner'', inner_temp st),
           (''temperature_outer'', outer_temp st),
           (''gun_state'', gun_state st),
           (''output_state'', output_state st),
           (''errors'', errors st)]
      | None \<Rightarrow>
          [(''current_power'', PInt 0),
           (''voltage_l1'', PInt 0),
           (''voltage_l2'', PInt 0),
           (''voltage_l3'', PInt 0),
           (''current_l1'', PInt 0),
           (''current_l2'', PInt 0),
           (''current_l3'', PInt 0),
           (''temperature_inner'', PInt 0),
           (''temperature_outer'', PInt 0),
           (''gun_state'', PInt 0),
           (''output_state'', PInt 0),
           (''errors'', PList [])])"

definition charge_items :: "charge_record option \<Rightarrow> pyval py_dict" where
  "charge_items c =
     (case c of
        Some ch \<Rightarrow>
          [(''charge_kwh'', charge_kwh ch),
           (''charge_id'', charge_id ch),
           (''start_date'', start_date ch),
           (''duration_seconds'', duration_seconds ch),
           (''charge_state'', current_state ch)]
      | None \<Rightarrow>
          [(''charge_kwh'', PInt 0),
           (''charge_id'', PStr ''''),
           (''start_date'', PNone),
           (''duration_seconds'', PInt 0),
           (''charge_state'', PInt 0)])"

definition evse_to_dict :: "evse \<Rightarrow> pyval py_dict" where
  "evse_to_dict e =
     (let data = info_items e;
          data = dict_update data (state_items (state e));
          data = dict_update data (charge_items (current_charge e))
      in data)"

text \<open>The key set that the spec documents (section 6), in the order given there.\<close>

definition documented_keys :: "string list" where
  "documented_keys =
    [''serial'', ''ip'', ''port'', ''last_seen'', ''online'', ''logged_in'', ''state'',
     ''brand'', ''model'', ''hardware_version'', ''software_version'', ''max_power'',
     ''max_electricity'', ''phases'', ''name'', ''configured_max_electricity'',
     ''temperature_unit'', ''current_power'', ''voltage_l1'', ''voltage_l2'',
     ''voltage_l3'', ''current_l1'', ''current_l2'', ''current_l3'',
     ''temperature_inner'', ''temperature_outer'', ''gun_state'', ''output_state'',
     ''errors'', ''charge_kwh'', ''charge_id'', ''start_date'', ''duration_seconds'',
     ''charge_state'']"

section \<open>The client: cooldown guard and command facade\<close>

text \<open>
  An exception of class \<^verbatim>\<open>Exception\<close> or of a subclass of it: the
  \<^verbatim>\<open>OverflowError\<close> of the \<^verbatim>\<open>datetime\<close> module, or any other, with its message.
\<close>

datatype py_error = OverflowError | PyException string

text \<open>
  A point in time (\<^verbatim>\<open>datetime.now()\<close>, a naive \<^verbatim>\<open>datetime\<close>) is the integer
  number of microseconds since \<^verbatim>\<open>datetime.min\<close>, microseconds being the resolution
  of \<^verbatim>\<open>datetime\<close> and \<^verbatim>\<open>timedelta\<close>; a \<^verbatim>\<open>datetime\<close> lies between \<open>0\<close> and
  \<open>315537897599999999\<close> (\<^verbatim>\<open>datetime.max\<close>). A \<^verbatim>\<open>timedelta\<close> is an integer number
  of microseconds too. Python normalises every new \<^verbatim>\<open>timedelta\<close> to days, seconds
  and microseconds and raises \<^verbatim>\<open>OverflowError\<close> unless the days lie between
  \<open>-999999999\<close> and \<open>999999999\<close>: the microseconds must lie between
  \<open>-999999999 * 86400000000\<close> and \<open>1000000000 * 86400000000 - 1\<close>.
  \<open>timedelta_new\<close> is that check. \<^verbatim>\<open>timedelta(minutes=m)\<close> builds the
  \<^verbatim>\<open>timedelta\<close> of \<open>m * 60000000\<close> microseconds, and the difference of two
  \<^verbatim>\<open>timedelta\<close>s builds the \<^verbatim>\<open>timedelta\<close> of the difference. The difference of two
  \<^verbatim>\<open>datetime\<close>s is always in range, so \<^verbatim>\<open>datetime.now() - last_change\<close> is the
  integer difference.
\<close>

type_synonym time = int

definition timedelta_new :: "int \<Rightarrow> py_error + int" where
  "timedelta_new microseconds =
     (if - 86399999913600000000 \<le> microseconds \<and> microseconds \<le> 86399999999999999999
      then Inr microseconds else Inl OverflowError)"

definition timedelta_minutes :: "int \<Rightarrow> py_error + int" where
  "timedelta_minutes m = timedelta_new (m * 60000000)"

definition timedelta_sub :: "int \<Rightarrow> int \<Rightarrow> py_error + int" where
  "timedelta_sub x y = timedelta_new (x - y)"

text \<open>
  The fields of \<^verbatim>\<open>EVSEClient\<close> that the guard uses: \<^verbatim>\<open>_fast_change_protection\<close>
  (serial to minutes) and \<^verbatim>\<open>_last_charge_change\<close> (serial to the time of the last
  recorded stop).
\<close>

record evse_client =
  fast_change_protection :: "string \<rightharpoonup> int"
  last_charge_change :: "string \<rightharpoonup> time"

text \<open>
  Modelled from the spec: the external device link. \<open>registry\<close> is the dictionary of
  devices that \<^verbatim>\<open>communicator.get_all_evses()\<close> returns and in which
  \<^verbatim>\<open>communicator.get_evse(serial)\<close> looks a serial up (\<^verbatim>\<open>None\<close> when it is not
  there). A command awaited on a device object is a \<open>link_command\<close>, tagged with the
  serial under which the device was found; \<open>device_link\<close> is what the link layer
  answers to it: a boolean, or an exception that the client does not catch.
\<close>

type_synonym registry = "evse py_dict"

datatype link_command =
    Login string string
  | ChargeStart string int bool
  | ChargeStop string
  | SetMaxElectricity string int
  | SetName string string
  | SyncTime string

type_synonym device_link = "link_command \<Rightarrow> py_error + bool"

definition communicator_get_evse :: "registry \<Rightarrow> string \<Rightarrow> evse option" where
  "communicator_get_evse devices serial = map_of devices serial"

text \<open>
  What a call of a method of the client leaves behind: the value it returns (or the
  exception it raises), the client's fields afterwards, and the commands it has
  forwarded to the device link, in order.
\<close>

record 'a outcome =
  ret :: "py_error + 'a"
  client_after :: evse_client
  forwarded :: "link_command list"

text \<open>\<^verbatim>\<open>EVSEClient.set_fast_change_protection\<close> and \<^verbatim>\<open>get_fast_change_protection\<close>.\<close>

definition set_fast_change_protection :: "evse_client \<Rightarrow> string \<Rightarrow> int \<Rightarrow> evse_client" where
  "set_fast_change_protection self serial minutes =
     self\<lparr>fast_change_protection := (fast_change_protection self)(serial \<mapsto> minutes)\<rparr>"

definition get_fast_change_protection :: "evse_client \<Rightarrow> string \<Rightarrow> int" where
  "get_fast_change_protection self serial =
     (case fast_change_protection self serial of Some minutes \<Rightarrow> minutes | None \<Rightarrow> 1)"

text \<open>
  \<^verbatim>\<open>EVSEClient._can_start_charge\<close> (lines 256 to 282), with the clock reading \<open>now\<close>.
  It is a method of the client, so it is given the client's fields and returns them
  with its result. The result is the boolean it returns, or the exception that leaves
  it: line 270 builds \<^verbatim>\<open>timedelta(minutes=protection_minutes)\<close>, and line 273, in
  the branch that warns, builds the remaining time \<^verbatim>\<open>min_interval - time_since_last\<close>.
\<close>

definition can_start_charge ::
  "evse_client \<Rightarrow> time \<Rightarrow> string \<Rightarrow> (py_error + bool) \<times> evse_client" where
  "can_start_charge self now serial =
     (let protection_minutes = get_fast_change_protection self serial in
      if protection_minutes = 0 then (Inr True, self)
      else
        (case last_charge_change self serial of
           None \<Rightarrow> (Inr True, self)
         | Some last_change \<Rightarrow>
             (let time_since_last = now - last_change in
              case timedelta_minutes protection_minutes of
                Inl err \<Rightarrow> (Inl err, self)
              | Inr min_interval \<Rightarrow>
                  if time_since_last < min_interval then
                    (case timedelta_sub min_interval time_since_last of
                       Inl err \<Rightarrow> (Inl err, self)
                     | Inr remaining \<Rightarrow> (Inr False, self))
                  else (Inr True, self))))"

text \<open>\<^verbatim>\<open>EVSEClient._record_charge_state_change\<close> (lines 284 to 287).\<close>

definition record_charge_state_change :: "evse_client \<Rightarrow> time \<Rightarrow> string \<Rightarrow> evse_client" where
  "record_charge_state_change self now serial =
     self\<lparr>last_charge_change := (last_charge_change self)(serial \<mapsto> now)\<rparr>"

text \<open>
  Lines 186 to 195 of \<^verbatim>\<open>start_charging\<close>: the amperage sent when the caller gives
  none. The device object is truthy, so \<^verbatim>\<open>evse.config and ...\<close> is decided by the
  comparison.
\<close>

definition resolve_amps :: "evse \<Rightarrow> int option \<Rightarrow> int" where
  "resolve_amps e amps =
     (case amps of
        Some a \<Rightarrow> a
      | None \<Rightarrow>
          if config_max_electricity (config e) > 0 then config_max_electricity (config e)
          else
            (let max_amps = (if max_electricity (info e) > 0 then max_electricity (info e) else 32)
             in min max_amps 16))"

text \<open>
  \<^verbatim>\<open>EVSEClient.start_charging\<close> (lines 173 to 198). An exception of the guard on
  line 177 leaves the method before the device is looked up.
\<close>

definition start_charging ::
  "registry \<Rightarrow> device_link \<Rightarrow> evse_client \<Rightarrow> time \<Rightarrow> string \<Rightarrow> int option \<Rightarrow> bool \<Rightarrow> bool outcome" where
  "start_charging devices link self now serial amps single_phase =
     (case can_start_charge self now serial of
        (Inl err, self1) \<Rightarrow> \<lparr>ret = Inl err, client_after = self1, forwarded = []\<rparr>
      | (Inr False, self1) \<Rightarrow> \<lparr>ret = Inr False, client_after = self1, forwarded = []\<rparr>
      | (Inr True, self1) \<Rightarrow>
          (case communicator_get_evse devices serial of
             None \<Rightarrow> \<lparr>ret = Inr False, client_after = self1, forwarded = []\<rparr>
           | Some e \<Rightarrow>
               (let cmd = ChargeStart serial (resolve_amps e amps) single_phase
                in \<lparr>ret = link cmd, client_after = self1, forwarded = [cmd]\<rparr>)))"

text \<open>
  \<^verbatim>\<open>EVSEClient.stop_charging\<close> (lines 200 to 214). \<open>now\<close> is the clock reading when
  the stop is recorded. An exception of the link leaves the method before line 211.
\<close>

definition stop_charging ::
  "registry \<Rightarrow> device_link \<Rightarrow> evse_client \<Rightarrow> time \<Rightarrow> string \<Rightarrow> bool outcome" where
  "stop_charging devices link self now serial =
     (case communicator_get_evse devices serial of
        None \<Rightarrow> \<lparr>ret = Inr False, client_after = self, forwarded = []\<rparr>
      | Some e \<Rightarrow>
          (let was_charging = (meta_state e = PStr ''CHARGING'');
               cmd = ChargeStop serial
           in case link cmd of
                Inl err \<Rightarrow> \<lparr>ret = Inl err, client_after = self, forwarded = [cmd]\<rparr>
              | Inr result \<Rightarrow>
                  \<lparr>ret = Inr result,
                   client_after =
                     (if result \<and> was_charging then record_charge_state_change self now serial
                      else self),
                   forwarded = [cmd]\<rparr>))"

text \<open>
  The thin forwards \<^verbatim>\<open>login\<close>, \<^verbatim>\<open>set_max_current\<close>, \<^verbatim>\<open>set_name\<close> and
  \<^verbatim>\<open>sync_time\<close> (lines 164 to 171 and 216 to 241) have one shape: look the device
  up, return \<^verbatim>\<open>False\<close> when it is not there, await the command otherwise.
\<close>

definition forward_to :: "registry \<Rightarrow> device_link \<Rightarrow> evse_client \<Rightarrow> string \<Rightarrow> link_command \<Rightarrow> bool outcome" where
  "forward_to devices link self serial cmd =
     (case communicator_get_evse devices serial of
        None \<Rightarrow> \<lparr>ret = Inr False, client_after = self, forwarded = []\<rparr>
      | Some e \<Rightarrow> \<lparr>ret = link cmd, client_after = self, forwarded = [cmd]\<rparr>)"

definition login :: "registry \<Rightarrow> device_link \<Rightarrow> evse_client \<Rightarrow> string \<Rightarrow> string \<Rightarrow> bool outcome" where
  "login devices link self serial password =
     forward_to devices link self serial (Login serial password)"

definition set_max_current :: "registry \<Rightarrow> device_link \<Rightarrow> evse_client \<Rightarrow> string \<Rightarrow> int \<Rightarrow> bool outcome" where
  "set_max_current devices link self serial amps =
     forward_to devices link self serial (SetMaxElectricity serial amps)"

definition set_name :: "registry \<Rightarrow> device_link \<Rightarrow> evse_client \<Rightarrow> string \<Rightarrow> string \<Rightarrow> bool outcome" where
  "set_name devices link self serial new_name =
     forward_to devices link self serial (SetName serial new_name)"

definition sync_time :: "registry \<Rightarrow> device_link \<Rightarrow> evse_client \<Rightarrow> string \<Rightarrow> bool outcome" where
  "sync_time devices link self serial =
     forward_to devices link self serial (SyncTime serial)"

text \<open>\<^verbatim>\<open>EVSEClient.get_evse\<close> (lines 150 to 155) and \<^verbatim>\<open>get_all_evses\<close> (157 to 162).\<close>

definition get_evse :: "registry \<Rightarrow> string \<Rightarrow> pyval py_dict option" where
  "get_evse devices serial =
     (case communicator_get_evse devices serial of
        Some e \<Rightarrow> Some (evse_to_dict e)
      | None \<Rightarrow> None)"

definition get_all_evses :: "registry \<Rightarrow> (pyval py_dict) py_dict" where
  "get_all_evses devices =
     foldl (\<lambda>result (serial, e). AList.update serial (evse_to_dict e) result) [] devices"

section \<open>The polling coordinator\<close>

text \<open>
  \<^verbatim>\<open>EVSEDataUpdateCoordinator\<close> (\<^verbatim>\<open>__init__.py\<close>, lines 27 to 56). \<open>data\<close> is
  the attribute \<^verbatim>\<open>self.data\<close>, the mapping published last: \<open>None\<close> stands for an
  attribute that is not set or holds \<^verbatim>\<open>None\<close>, which line 56 treats alike;
  \<open>last_update_success\<close> is the flag that the base class keeps. The
  argument \<open>fetched\<close> is the outcome of \<^verbatim>\<open>self.client.get_all_evses()\<close> on line 44:
  the mapping, or the exception it raised.
\<close>

type_synonym records = "(pyval py_dict) py_dict"

record coordinator =
  data :: "records option"
  last_update_success :: bool

definition async_update_data :: "coordinator \<Rightarrow> py_error + records \<Rightarrow> py_error + records" where
  "async_update_data self fetched =
     (case fetched of
        Inr evses \<Rightarrow> (if evses = [] then Inr [] else Inr evses)
      | Inl err \<Rightarrow>
          Inr (case data self of
                 Some d \<Rightarrow> (if d \<noteq> [] then d else [])
               | None \<Rightarrow> []))"

text \<open>
  The base class \<^verbatim>\<open>DataUpdateCoordinator\<close> belongs to the host framework and is not
  part of the repository. Its poll tick awaits \<^verbatim>\<open>_async_update_data\<close>; when that
  returns, the tick publishes the value by storing it in \<^verbatim>\<open>self.data\<close> and sets
  \<^verbatim>\<open>self.last_update_success\<close>; when it raises, the tick keeps \<^verbatim>\<open>self.data\<close> and
  clears the flag. A new coordinator has published nothing and its flag is set.
\<close>

definition poll_tick :: "coordinator \<Rightarrow> py_error + records \<Rightarrow> coordinator" where
  "poll_tick self fetched =
     (case async_update_data self fetched of
        Inr published \<Rightarrow> self\<lparr>data := Some published, last_update_success := True\<rparr>
      | Inl err \<Rightarrow> self\<lparr>last_update_success := False\<rparr>)"

definition new_coordinator :: coordinator where
  "new_coordinator = \<lparr>data = None, last_update_success = True\<rparr>"

definition poll_ticks :: "coordinator \<Rightarrow> (py_error + records) list \<Rightarrow> coordinator" where
  "poll_ticks self fetches = foldl poll_tick self fetches"

text \<open>
  The spec's words for the poll history: the mapping of the last fetch that succeeded,
  if any fetch did.
\<close>

fun last_successful :: "(py_error + records) list \<Rightarrow> records option" where
  "last_successful [] = None"
| "last_successful (f # fs) =
     (case last_successful fs of
        Some d \<Rightarrow> Some d
      | None \<Rightarrow> (case f of Inr d \<Rightarrow> Some d | Inl err \<Rightarrow> None))"

section \<open>Sample inputs\<close>

text \<open>
  A device with no electrical snapshot and no session, with a given display name,
  configured and advertised maximum current and state label; a client that has
  recorded nothing, and one with a protection and a recorded stop for the serial
  \<open>ABC123\<close>; the mapping that a fetch of one such device gives; a device link that
  accepts every command, and one that refuses.
\<close>

definition sample_evse :: "pyval \<Rightarrow> int \<Rightarrow> int \<Rightarrow> pyval \<Rightarrow> evse" where
  "sample_evse display_name configured device_max label =
     \<lparr>info = \<lparr>info_serial = PStr ''ABC123'', ip = PStr ''192.168.1.50'', port = PInt 28376,
              brand = PStr ''Morec'', model = PStr ''EVSE'', hardware_version = PStr ''1.0'',
              software_version = PStr ''1.0'', max_power = PInt 7360,
              max_electricity = device_max, phases = PInt 1\<rparr>,
      config = \<lparr>name = display_name, config_max_electricity = configured,
                temperature_unit = PInt 1\<rparr>,
      state = None, current_charge = None, last_seen = PDatetime 0,
      online = True, logged_in = True, meta_state = label\<rparr>"

definition no_client :: evse_client where
  "no_client = \<lparr>fast_change_protection = Map.empty, last_charge_change = Map.empty\<rparr>"

definition armed_client :: "int \<Rightarrow> time \<Rightarrow> evse_client" where
  "armed_client minutes t0 =
     \<lparr>fast_change_protection = [''ABC123'' \<mapsto> minutes],
      last_charge_change = [''ABC123'' \<mapsto> t0]\<rparr>"

definition one_device :: records where
  "one_device = get_all_evses [(''ABC123'', sample_evse PNone 10 32 (PStr ''IDLE''))]"

definition link_accepts :: device_link where
  "link_accepts cmd = Inr True"

definition link_refuses :: device_link where
  "link_refuses cmd = Inr False"

section \<open>Dictionaries: storing fresh keys appends them\<close>

lemma update_fresh:
  "k \<notin> fst ` set d \<Longrightarrow> AList.update k v d = d @ [(k, v)]"
  by (induction d) auto

lemma dict_update_fresh:
  "distinct (map fst other) \<Longrightarrow> fst ` set other \<inter> fst ` set d = {} \<Longrightarrow>
   dict_update d other = d @ other"
proof (induction other arbitrary: d)
  case Nil
  then show ?case by (simp add: dict_update_def)
next
  case (Cons p other)
  obtain k v where p: "p = (k, v)" by (cases p)
  from Cons.prems p have fresh: "k \<notin> fst ` set d" by auto
  have step: "AList.update k v d = d @ [(k, v)]"
    using fresh by (rule update_fresh)
  have "distinct (map fst other)" using Cons.prems by simp
  moreover have "fst ` set other \<inter> fst ` set (d @ [(k, v)]) = {}"
    using Cons.prems p by auto
  ultimately have "dict_update (d @ [(k, v)]) other = (d @ [(k, v)]) @ other"
    by (rule Cons.IH)
  then show ?case using step p by (simp add: dict_update_def)
qed

lemma dict_update_fresh_keys:
  assumes "distinct (map fst other)" and "set (map fst other) \<inter> set (map fst d) = {}"
  shows "dict_update d other = d @ other"
  using assms by (intro dict_update_fresh) simp_all

section \<open>The published record\<close>

lemma info_items_keys: "map fst (info_items e) = take 17 documented_keys"
  by (simp add: info_items_def documented_keys_def)

lemma state_items_keys: "map fst (state_items s) = take 12 (drop 17 documented_keys)"
  by (cases s) (simp_all add: state_items_def documented_keys_def)

lemma charge_items_keys: "map fst (charge_items c) = drop 29 documented_keys"
  by (cases c) (simp_all add: charge_items_def documented_keys_def)

text \<open>
  The three blocks have disjoint keys, so the two \<^verbatim>\<open>update\<close> calls overwrite nothing:
  the record is the three blocks one after the other.
\<close>

lemma evse_to_dict_append:
  "evse_to_dict e = info_items e @ state_items (state e) @ charge_items (current_charge e)"
proof -
  have one: "dict_update (info_items e) (state_items (state e))
      = info_items e @ state_items (state e)"
    by (rule dict_update_fresh_keys)
       (simp_all add: info_items_keys state_items_keys documented_keys_def)
  have two: "dict_update (info_items e @ state_items (state e)) (charge_items (current_charge e))
      = (info_items e @ state_items (state e)) @ charge_items (current_charge e)"
    by (rule dict_update_fresh_keys)
       (simp_all add: info_items_keys state_items_keys charge_items_keys documented_keys_def)
  show ?thesis
    by (simp add: evse_to_dict_def Let_def one two)
qed

lemma evse_to_dict_keys: "dict_keys (evse_to_dict e) = documented_keys"
proof -
  have "dict_keys (evse_to_dict e)
      = take 17 documented_keys @ take 12 (drop 17 documented_keys) @ drop 29 documented_keys"
    by (simp add: dict_keys_def evse_to_dict_append info_items_keys state_items_keys
        charge_items_keys)
  also have "\<dots> = documented_keys"
    by (simp add: documented_keys_def)
  finally show ?thesis .
qed

text \<open>
  Claim C5. The projection is a function of the device alone, defined on every device:
  for every device the keys of the record are exactly the documented keys, each once,
  in the documented order; and when the device has neither an electrical snapshot nor
  a session, the seventeen entries after the identity and configuration block are the
  documented defaults: power, voltages, currents, temperatures, gun state and output
  state \<open>0\<close>, \<open>errors\<close> the empty list, \<open>charge_kwh\<close> \<open>0\<close>, \<open>charge_id\<close> the empty
  string, \<open>start_date\<close> \<^verbatim>\<open>None\<close>, \<open>duration_seconds\<close> and \<open>charge_state\<close> \<open>0\<close>.
\<close>

theorem evse_to_dict_default_block:
  "dict_keys (evse_to_dict e) = documented_keys \<and>
   distinct (dict_keys (evse_to_dict e)) \<and>
   (state e = None \<and> current_charge e = None \<longrightarrow>
      drop 17 (evse_to_dict e) =
        [(''current_power'', PInt 0),
         (''voltage_l1'', PInt 0),
         (''voltage_l2'', PInt 0),
         (''voltage_l3'', PInt 0),
         (''current_l1'', PInt 0),
         (''current_l2'', PInt 0),
         (''current_l3'', PInt 0),
         (''temperature_inner'', PInt 0),
         (''temperature_outer'', PInt 0),
         (''gun_state'', PInt 0),
         (''output_state'', PInt 0),
         (''errors'', PList []),
         (''charge_kwh'', PInt 0),
         (''charge_id'', PStr ''''),
         (''start_date'', PNone),
         (''duration_seconds'', PInt 0),
         (''charge_state'', PInt 0)])"
proof (intro conjI impI)
  show "dict_keys (evse_to_dict e) = documented_keys"
    by (rule evse_to_dict_keys)
  show "distinct (dict_keys (evse_to_dict e))"
    unfolding evse_to_dict_keys by (simp add: documented_keys_def)
next
  assume absent: "state e = None \<and> current_charge e = None"
  have "length (info_items e) = 17"
    by (simp add: info_items_def)
  then have "drop 17 (evse_to_dict e) = state_items None @ charge_items None"
    using absent by (simp add: evse_to_dict_append)
  then show "drop 17 (evse_to_dict e) =
        [(''current_power'', PInt 0),
         (''voltage_l1'', PInt 0),
         (''voltage_l2'', PInt 0),
         (''voltage_l3'', PInt 0),
         (''current_l1'', PInt 0),
         (''current_l2'', PInt 0),
         (''current_l3'', PInt 0),
         (''temperature_inner'', PInt 0),
         (''temperature_outer'', PInt 0),
         (''gun_state'', PInt 0),
         (''output_state'', PInt 0),
         (''errors'', PList []),
         (''charge_kwh'', PInt 0),
         (''charge_id'', PStr ''''),
         (''start_date'', PNone),
         (''duration_seconds'', PInt 0),
         (''charge_state'', PInt 0)]"
    by (simp add: state_items_def charge_items_def)
qed

theorem evse_to_dict_default_block_witness:
  "dict_keys (evse_to_dict (sample_evse (PStr ''Garage'') 10 32 (PStr ''IDLE''))) = documented_keys \<and>
   dict_get (evse_to_dict (sample_evse (PStr ''Garage'') 10 32 (PStr ''IDLE''))) ''serial''
     = Some (PStr ''ABC123'') \<and>
   drop 17 (evse_to_dict (sample_evse (PStr ''Garage'') 10 32 (PStr ''IDLE''))) =
        [(''current_power'', PInt 0),
         (''voltage_l1'', PInt 0),
         (''voltage_l2'', PInt 0),
         (''voltage_l3'', PInt 0),
         (''current_l1'', PInt 0),
         (''current_l2'', PInt 0),
         (''current_l3'', PInt 0),
         (''temperature_inner'', PInt 0),
         (''temperature_outer'', PInt 0),
         (''gun_state'', PInt 0),
         (''output_state'', PInt 0),
         (''errors'', PList []),
         (''charge_kwh'', PInt 0),
         (''charge_id'', PStr ''''),
         (''start_date'', PNone),
         (''duration_seconds'', PInt 0),
         (''charge_state'', PInt 0)]"
proof -
  have absent: "state (sample_evse (PStr ''Garage'') 10 32 (PStr ''IDLE'')) = None \<and>
      current_charge (sample_evse (PStr ''Garage'') 10 32 (PStr ''IDLE'')) = None"
    by (simp add: sample_evse_def)
  have first: "dict_get (evse_to_dict (sample_evse (PStr ''Garage'') 10 32 (PStr ''IDLE''))) ''serial''
      = Some (PStr ''ABC123'')"
    by (simp add: dict_get_def evse_to_dict_append info_items_def sample_evse_def)
  show ?thesis
    using evse_to_dict_default_block [of "sample_evse (PStr ''Garage'') 10 32 (PStr ''IDLE'')"]
      absent first
    by simp
qed

text \<open>
  Claim C10. For every device whose configured display name is the empty string or
  \<^verbatim>\<open>None\<close>, the \<open>name\<close> entry of the published record is the string
  \<open>EVSEMaster\<close>, which is neither empty nor the \<open>0\<close> of the other defaults; a
  non-empty name is published as it is.
\<close>

theorem evse_to_dict_name_fallback:
  "(name (config e) = PStr '''' \<or> name (config e) = PNone \<longrightarrow>
      dict_get (evse_to_dict e) ''name'' = Some (PStr ''EVSEMaster'')) \<and>
   (\<forall>s. name (config e) = PStr s \<and> s \<noteq> '''' \<longrightarrow>
      dict_get (evse_to_dict e) ''name'' = Some (PStr s)) \<and>
   PStr ''EVSEMaster'' \<noteq> PStr '''' \<and> PStr ''EVSEMaster'' \<noteq> PInt 0"
proof -
  have "dict_get (evse_to_dict e) ''name'' = Some (py_or (name (config e)) (PStr ''EVSEMaster''))"
    by (simp add: dict_get_def evse_to_dict_append info_items_def)
  then show ?thesis
    by (auto simp add: py_or_def)
qed

theorem evse_to_dict_name_fallback_witness:
  "dict_get (evse_to_dict (sample_evse (PStr '''') 10 32 (PStr ''IDLE''))) ''name''
     = Some (PStr ''EVSEMaster'') \<and>
   dict_get (evse_to_dict (sample_evse PNone 10 32 (PStr ''IDLE''))) ''name''
     = Some (PStr ''EVSEMaster'') \<and>
   dict_get (evse_to_dict (sample_evse (PStr ''Garage'') 10 32 (PStr ''IDLE''))) ''name''
     = Some (PStr ''Garage'')"
  using evse_to_dict_name_fallback [of "sample_evse (PStr '''') 10 32 (PStr ''IDLE'')"]
    evse_to_dict_name_fallback [of "sample_evse PNone 10 32 (PStr ''IDLE'')"]
    evse_to_dict_name_fallback [of "sample_evse (PStr ''Garage'') 10 32 (PStr ''IDLE'')"]
  by (simp add: sample_evse_def)

section \<open>The cooldown guard\<close>

lemma can_start_charge_snd: "snd (can_start_charge self now serial) = self"
  by (simp add: can_start_charge_def Let_def split: option.split sum.split)

lemma can_start_charge_pair:
  "can_start_charge self now serial = (fst (can_start_charge self now serial), self)"
  using can_start_charge_snd [of self now serial]
  by (cases "can_start_charge self now serial") simp

lemma timedelta_minutes_range:
  "timedelta_minutes m =
     (if - 1439999998560 \<le> m \<and> m < 1440000000000 then Inr (m * 60000000)
      else Inl OverflowError)"
  by (simp add: timedelta_minutes_def timedelta_new_def)

text \<open>The guard's answer, with the ranges of \<^verbatim>\<open>timedelta\<close> written out.\<close>

lemma can_start_charge_fst:
  "fst (can_start_charge self now serial) =
     (if get_fast_change_protection self serial = 0 then Inr True
      else
        (case last_charge_change self serial of
           None \<Rightarrow> Inr True
         | Some t0 \<Rightarrow>
             if get_fast_change_protection self serial < - 1439999998560
                \<or> 1440000000000 \<le> get_fast_change_protection self serial
             then Inl OverflowError
             else if now < t0 + get_fast_change_protection self serial * 60000000 then
               (if get_fast_change_protection self serial * 60000000 - (now - t0)
                     \<le> 86399999999999999999
                then Inr False else Inl OverflowError)
             else Inr True))"
proof (cases "last_charge_change self serial")
  case None
  then show ?thesis by (simp add: can_start_charge_def Let_def)
next
  case (Some t0)
  then show ?thesis
    by (auto simp add: can_start_charge_def Let_def timedelta_minutes_range timedelta_sub_def
        timedelta_new_def)
qed

text \<open>
  Claim C3, as the spec states it: for every protection of more than \<open>0\<close> minutes and a
  recorded stop, the guard answers \<^verbatim>\<open>False\<close> before the protection has elapsed.
  It does not for every protection: with 1440000000000 minutes, which
  \<^verbatim>\<open>set_fast_change_protection\<close> stores like any other integer, and a stop recorded
  a millisecond before, the guard raises \<^verbatim>\<open>OverflowError\<close> on line 270.
\<close>

theorem can_start_charge_overflow_counterexample:
  "get_fast_change_protection (armed_client 1440000000000 1000) ''ABC123'' = 1440000000000 \<and>
   last_charge_change (armed_client 1440000000000 1000) ''ABC123'' = Some 1000 \<and>
   fst (can_start_charge (armed_client 1440000000000 1000) 2000 ''ABC123'') = Inl OverflowError"
  by (simp add: can_start_charge_fst armed_client_def get_fast_change_protection_def)

text \<open>
  Claim C3, amended. Let the protection be \<open>m\<close> minutes and a stop be recorded at
  \<open>t0\<close>. For \<open>0 < m < 1440000000000\<close>, the minutes that a \<^verbatim>\<open>timedelta\<close> can hold,
  the guard answers \<^verbatim>\<open>True\<close> at \<open>t0 + m * 60000000\<close> microseconds and at every later
  time, and \<^verbatim>\<open>False\<close> at every earlier time at which the remaining time
  \<open>m * 60000000 - (now - t0)\<close> is a \<^verbatim>\<open>timedelta\<close> (at most \<open>86399999999999999999\<close>
  microseconds), which it is whenever \<open>m \<le> 1434741035040\<close> and both times are
  \<^verbatim>\<open>datetime\<close>s. For \<open>m \<ge> 1440000000000\<close> it raises \<^verbatim>\<open>OverflowError\<close>. It
  answers \<^verbatim>\<open>True\<close> when the protection is \<open>0\<close> or no stop is recorded, and it
  leaves the client's fields as they were.
\<close>

theorem can_start_charge_boundary:
  "(get_fast_change_protection self serial = m \<and> last_charge_change self serial = Some t0 \<longrightarrow>
      (0 < m \<and> m < 1440000000000 \<and> t0 + m * 60000000 \<le> now \<longrightarrow>
         fst (can_start_charge self now serial) = Inr True) \<and>
      (0 < m \<and> m < 1440000000000 \<and> now < t0 + m * 60000000
         \<and> m * 60000000 - (now - t0) \<le> 86399999999999999999 \<longrightarrow>
         fst (can_start_charge self now serial) = Inr False) \<and>
      (0 < m \<and> m \<le> 1434741035040 \<and> now < t0 + m * 60000000
         \<and> 0 \<le> now \<and> t0 \<le> 315537897599999999 \<longrightarrow>
         fst (can_start_charge self now serial) = Inr False) \<and>
      (1440000000000 \<le> m \<longrightarrow>
         fst (can_start_charge self now serial) = Inl OverflowError)) \<and>
   (get_fast_change_protection self serial = 0 \<or> last_charge_change self serial = None \<longrightarrow>
      fst (can_start_charge self now serial) = Inr True) \<and>
   snd (can_start_charge self now serial) = self"
proof (intro conjI impI)
  assume h: "get_fast_change_protection self serial = m \<and> last_charge_change self serial = Some t0"
  {
    assume "0 < m \<and> m < 1440000000000 \<and> t0 + m * 60000000 \<le> now"
    with h show "fst (can_start_charge self now serial) = Inr True"
      by (simp add: can_start_charge_fst)
  next
    assume "0 < m \<and> m < 1440000000000 \<and> now < t0 + m * 60000000
         \<and> m * 60000000 - (now - t0) \<le> 86399999999999999999"
    with h show "fst (can_start_charge self now serial) = Inr False"
      by (simp add: can_start_charge_fst)
  next
    assume a: "0 < m \<and> m \<le> 1434741035040 \<and> now < t0 + m * 60000000
         \<and> 0 \<le> now \<and> t0 \<le> 315537897599999999"
    then have "m * 60000000 - (now - t0) \<le> 86399999999999999999" by linarith
    with a h show "fst (can_start_charge self now serial) = Inr False"
      by (simp add: can_start_charge_fst)
  next
    assume "1440000000000 \<le> m"
    with h show "fst (can_start_charge self now serial) = Inl OverflowError"
      by (simp add: can_start_charge_fst)
  }
next
  assume "get_fast_change_protection self serial = 0 \<or> last_charge_change self serial = None"
  then show "fst (can_start_charge self now serial) = Inr True"
    by (auto simp add: can_start_charge_fst)
next
  show "snd (can_start_charge self now serial) = self"
    by (rule can_start_charge_snd)
qed

theorem can_start_charge_boundary_witness:
  "fst (can_start_charge (armed_client 1 1000) 60000999 ''ABC123'') = Inr False \<and>
   fst (can_start_charge (armed_client 1 1000) 60001000 ''ABC123'') = Inr True \<and>
   fst (can_start_charge (armed_client 1 1000) 30001000 ''ABC123'') = Inr False \<and>
   fst (can_start_charge (armed_client 1 1000) 61001000 ''ABC123'') = Inr True \<and>
   fst (can_start_charge (armed_client 5 1000) 300000999 ''ABC123'') = Inr False \<and>
   fst (can_start_charge (armed_client 5 1000) 300001000 ''ABC123'') = Inr True \<and>
   fst (can_start_charge (armed_client 60 0) 3599999999 ''ABC123'') = Inr False \<and>
   fst (can_start_charge (armed_client 60 0) 3600000000 ''ABC123'') = Inr True \<and>
   fst (can_start_charge \<lparr>fast_change_protection = Map.empty,
          last_charge_change = [''ABC123'' \<mapsto> 1000]\<rparr> 60000999 ''ABC123'') = Inr False \<and>
   fst (can_start_charge \<lparr>fast_change_protection = Map.empty,
          last_charge_change = [''ABC123'' \<mapsto> 1000]\<rparr> 60001000 ''ABC123'') = Inr True \<and>
   fst (can_start_charge (armed_client 1439999999999 0) 86399999999939999999 ''ABC123'') = Inr False \<and>
   fst (can_start_charge (armed_client 1439999999999 0) 86399999999940000000 ''ABC123'') = Inr True \<and>
   fst (can_start_charge (armed_client 1440000000000 0) 86400000000000000000 ''ABC123'')
     = Inl OverflowError \<and>
   fst (can_start_charge (armed_client 0 1000) 1000 ''ABC123'') = Inr True \<and>
   fst (can_start_charge no_client 1000 ''ABC123'') = Inr True \<and>
   snd (can_start_charge (armed_client 1 1000) 30001000 ''ABC123'') = armed_client 1 1000"
  using can_start_charge_boundary [of "armed_client 1 1000" "''ABC123''" 1 1000 60000999]
    can_start_charge_boundary [of "armed_client 1 1000" "''ABC123''" 1 1000 60001000]
    can_start_charge_boundary [of "armed_client 1 1000" "''ABC123''" 1 1000 30001000]
    can_start_charge_boundary [of "armed_client 1 1000" "''ABC123''" 1 1000 61001000]
    can_start_charge_boundary [of "armed_client 5 1000" "''ABC123''" 5 1000 300000999]
    can_start_charge_boundary [of "armed_client 5 1000" "''ABC123''" 5 1000 300001000]
    can_start_charge_boundary [of "armed_client 60 0" "''ABC123''" 60 0 3599999999]
    can_start_charge_boundary [of "armed_client 60 0" "''ABC123''" 60 0 3600000000]
    can_start_charge_boundary [of "\<lparr>fast_change_protection = Map.empty,
          last_charge_change = [''ABC123'' \<mapsto> 1000]\<rparr>" "''ABC123''" 1 1000 60000999]
    can_start_charge_boundary [of "\<lparr>fast_change_protection = Map.empty,
          last_charge_change = [''ABC123'' \<mapsto> 1000]\<rparr>" "''ABC123''" 1 1000 60001000]
    can_start_charge_boundary [of "armed_client 1439999999999 0" "''ABC123''" 1439999999999 0
      86399999999939999999]
    can_start_charge_boundary [of "armed_client 1439999999999 0" "''ABC123''" 1439999999999 0
      86399999999940000000]
    can_start_charge_boundary [of "armed_client 1440000000000 0" "''ABC123''" 1440000000000 0
      86400000000000000000]
    can_start_charge_boundary [of "armed_client 0 1000" "''ABC123''" 0 1000 1000]
    can_start_charge_boundary [of no_client "''ABC123''" 1 1000 1000]
  by (simp add: armed_client_def no_client_def get_fast_change_protection_def)

text \<open>
  Claim C8. Whatever the client's fields are, a protection of \<open>0\<close> minutes lets
  \<^verbatim>\<open>_can_start_charge\<close> answer \<^verbatim>\<open>True\<close>, at every time and whether or not a stop is
  recorded; this holds in particular right after
  \<^verbatim>\<open>set_fast_change_protection(serial, 0)\<close>, which does not touch the recorded
  stops.
\<close>

theorem protection_zero_always_allows:
  "(get_fast_change_protection self serial = 0 \<longrightarrow>
      fst (can_start_charge self now serial) = Inr True) \<and>
   get_fast_change_protection (set_fast_change_protection self serial 0) serial = 0 \<and>
   fst (can_start_charge (set_fast_change_protection self serial 0) now serial) = Inr True \<and>
   last_charge_change (set_fast_change_protection self serial 0) = last_charge_change self"
  by (simp add: can_start_charge_fst get_fast_change_protection_def set_fast_change_protection_def)

theorem protection_zero_always_allows_witness:
  "fst (can_start_charge (armed_client 5 1000) 1000 ''ABC123'') = Inr False \<and>
   fst (can_start_charge (set_fast_change_protection (armed_client 5 1000) ''ABC123'' 0) 1000
          ''ABC123'') = Inr True \<and>
   fst (can_start_charge (armed_client 0 1000) 1000 ''ABC123'') = Inr True \<and>
   fst (can_start_charge (armed_client 0 1000) 0 ''ABC123'') = Inr True"
  using protection_zero_always_allows [of "armed_client 5 1000" "''ABC123''" 1000]
    protection_zero_always_allows [of "armed_client 0 1000" "''ABC123''" 1000]
    protection_zero_always_allows [of "armed_client 0 1000" "''ABC123''" 0]
  by (simp add: can_start_charge_fst armed_client_def get_fast_change_protection_def)

section \<open>The command facade\<close>

text \<open>
  Claim C1. When the device is known and the guard lets the start pass,
  \<^verbatim>\<open>start_charging\<close> forwards one start command, and its amperage is: the amperage
  the caller supplied, unchanged; with none supplied, the device's configured maximum
  when that is positive, and otherwise the smaller of \<open>16\<close> and \<open>m\<close>, where \<open>m\<close> is
  the advertised maximum of the device if positive and \<open>32\<close> if not.
\<close>

theorem start_charging_resolves_amperage:
  assumes "communicator_get_evse devices serial = Some e"
    and "fst (can_start_charge self now serial) = Inr True"
  shows "forwarded (start_charging devices link self now serial amps single_phase)
           = [ChargeStart serial (resolve_amps e amps) single_phase]
         \<and> (\<forall>a. resolve_amps e (Some a) = a)
         \<and> (0 < config_max_electricity (config e) \<longrightarrow>
               resolve_amps e None = config_max_electricity (config e))
         \<and> (\<not> 0 < config_max_electricity (config e) \<longrightarrow>
               resolve_amps e None
                 = min (if 0 < max_electricity (info e) then max_electricity (info e) else 32) 16)"
proof -
  have "can_start_charge self now serial = (Inr True, self)"
    using assms(2) can_start_charge_pair [of self now serial] by simp
  then have "forwarded (start_charging devices link self now serial amps single_phase)
           = [ChargeStart serial (resolve_amps e amps) single_phase]"
    using assms(1) by (simp add: start_charging_def Let_def)
  then show ?thesis
    by (simp add: resolve_amps_def Let_def)
qed

theorem start_charging_resolves_amperage_witness:
  "forwarded (start_charging [(''ABC123'', sample_evse PNone 10 32 (PStr ''IDLE''))]
       link_accepts no_client 0 ''ABC123'' None False) = [ChargeStart ''ABC123'' 10 False]
   \<and> forwarded (start_charging [(''ABC123'', sample_evse PNone 0 20 (PStr ''IDLE''))]
       link_accepts no_client 0 ''ABC123'' None False) = [ChargeStart ''ABC123'' 16 False]
   \<and> forwarded (start_charging [(''ABC123'', sample_evse PNone 0 0 (PStr ''IDLE''))]
       link_accepts no_client 0 ''ABC123'' None False) = [ChargeStart ''ABC123'' 16 False]
   \<and> forwarded (start_charging [(''ABC123'', sample_evse PNone 10 32 (PStr ''IDLE''))]
       link_accepts no_client 0 ''ABC123'' (Some 25) False) = [ChargeStart ''ABC123'' 25 False]"
proof -
  have can: "fst (can_start_charge no_client 0 ''ABC123'') = Inr True"
    by (simp add: can_start_charge_fst get_fast_change_protection_def no_client_def)
  have known: "communicator_get_evse [(''ABC123'', d)] ''ABC123'' = Some d" for d
    by (simp add: communicator_get_evse_def)
  show ?thesis
    using start_charging_resolves_amperage [OF known can,
        of "sample_evse PNone 10 32 (PStr ''IDLE'')" link_accepts None False]
      start_charging_resolves_amperage [OF known can,
        of "sample_evse PNone 0 20 (PStr ''IDLE'')" link_accepts None False]
      start_charging_resolves_amperage [OF known can,
        of "sample_evse PNone 0 0 (PStr ''IDLE'')" link_accepts None False]
      start_charging_resolves_amperage [OF known can,
        of "sample_evse PNone 10 32 (PStr ''IDLE'')" link_accepts "Some 25" False]
    by (simp add: sample_evse_def)
qed

lemma start_charging_guard:
  "start_charging devices link self now serial amps single_phase =
     (case fst (can_start_charge self now serial) of
        Inl err \<Rightarrow> \<lparr>ret = Inl err, client_after = self, forwarded = []\<rparr>
      | Inr False \<Rightarrow> \<lparr>ret = Inr False, client_after = self, forwarded = []\<rparr>
      | Inr True \<Rightarrow>
          (case communicator_get_evse devices serial of
             None \<Rightarrow> \<lparr>ret = Inr False, client_after = self, forwarded = []\<rparr>
           | Some e \<Rightarrow>
               \<lparr>ret = link (ChargeStart serial (resolve_amps e amps) single_phase),
                client_after = self,
                forwarded = [ChargeStart serial (resolve_amps e amps) single_phase]\<rparr>))"
proof -
  obtain r where r: "can_start_charge self now serial = (r, self)"
    using can_start_charge_pair by blast
  show ?thesis
    by (simp add: start_charging_def r Let_def split: sum.split bool.split option.split)
qed

text \<open>
  Claim C4. When \<^verbatim>\<open>_can_start_charge\<close> answers \<^verbatim>\<open>False\<close>, \<^verbatim>\<open>start_charging\<close>
  returns \<^verbatim>\<open>False\<close> and forwards nothing to the device link: so it does for a
  protection of \<open>m\<close> minutes, \<open>0 < m < 1440000000000\<close>, and a stop recorded at \<open>t0\<close>,
  at every time before \<open>t0 + m * 60000000\<close> microseconds at which the remaining time
  is a \<^verbatim>\<open>timedelta\<close>. When the guard raises, \<^verbatim>\<open>start_charging\<close> raises the same
  exception and forwards nothing. In every case, blocked, raised, unknown device or
  forwarded, whatever the link answers, the protection minutes and the recorded stops
  of every serial are afterwards what they were.
\<close>

theorem start_charging_never_arms:
  "(fst (can_start_charge self now serial) = Inr False \<longrightarrow>
      ret (start_charging devices link self now serial amps single_phase) = Inr False \<and>
      forwarded (start_charging devices link self now serial amps single_phase) = []) \<and>
   (get_fast_change_protection self serial = m \<and> last_charge_change self serial = Some t0
      \<and> 0 < m \<and> m < 1440000000000 \<and> now < t0 + m * 60000000
      \<and> m * 60000000 - (now - t0) \<le> 86399999999999999999 \<longrightarrow>
      ret (start_charging devices link self now serial amps single_phase) = Inr False \<and>
      forwarded (start_charging devices link self now serial amps single_phase) = []) \<and>
   (\<forall>err. fst (can_start_charge self now serial) = Inl err \<longrightarrow>
      ret (start_charging devices link self now serial amps single_phase) = Inl err \<and>
      forwarded (start_charging devices link self now serial amps single_phase) = []) \<and>
   client_after (start_charging devices link self now serial amps single_phase) = self \<and>
   fast_change_protection
       (client_after (start_charging devices link self now serial amps single_phase))
     = fast_change_protection self \<and>
   last_charge_change
       (client_after (start_charging devices link self now serial amps single_phase))
     = last_charge_change self"
proof -
  have after: "client_after (start_charging devices link self now serial amps single_phase) = self"
    by (simp add: start_charging_guard split: sum.split bool.split option.split)
  have blocked: "fst (can_start_charge self now serial) = Inr False \<Longrightarrow>
      ret (start_charging devices link self now serial amps single_phase) = Inr False \<and>
      forwarded (start_charging devices link self now serial amps single_phase) = []"
    by (simp add: start_charging_guard)
  have raised: "fst (can_start_charge self now serial) = Inl err \<Longrightarrow>
      ret (start_charging devices link self now serial amps single_phase) = Inl err \<and>
      forwarded (start_charging devices link self now serial amps single_phase) = []" for err
    by (simp add: start_charging_guard)
  have cooling: "fst (can_start_charge self now serial) = Inr False"
    if "get_fast_change_protection self serial = m \<and> last_charge_change self serial = Some t0
      \<and> 0 < m \<and> m < 1440000000000 \<and> now < t0 + m * 60000000
      \<and> m * 60000000 - (now - t0) \<le> 86399999999999999999"
    using that by (simp add: can_start_charge_fst)
  show ?thesis
    using after blocked raised cooling by simp
qed

theorem start_charging_never_arms_witness:
  "ret (start_charging [(''ABC123'', sample_evse PNone 10 32 (PStr ''IDLE''))] link_accepts
          (armed_client 1 1000) 30001000 ''ABC123'' None False) = Inr False \<and>
   forwarded (start_charging [(''ABC123'', sample_evse PNone 10 32 (PStr ''IDLE''))] link_accepts
          (armed_client 1 1000) 30001000 ''ABC123'' None False) = [] \<and>
   client_after (start_charging [(''ABC123'', sample_evse PNone 10 32 (PStr ''IDLE''))] link_accepts
          (armed_client 1 1000) 30001000 ''ABC123'' None False) = armed_client 1 1000 \<and>
   client_after (start_charging [(''ABC123'', sample_evse PNone 10 32 (PStr ''IDLE''))] link_accepts
          (armed_client 1 1000) 61001000 ''ABC123'' None False) = armed_client 1 1000 \<and>
   ret (start_charging [(''ABC123'', sample_evse PNone 10 32 (PStr ''IDLE''))] link_accepts
          (armed_client 1440000000000 1000) 2000 ''ABC123'' None False) = Inl OverflowError \<and>
   forwarded (start_charging [(''ABC123'', sample_evse PNone 10 32 (PStr ''IDLE''))] link_accepts
          (armed_client 1440000000000 1000) 2000 ''ABC123'' None False) = [] \<and>
   client_after (start_charging [(''ABC123'', sample_evse PNone 10 32 (PStr ''IDLE''))] link_accepts
          (armed_client 1440000000000 1000) 2000 ''ABC123'' None False)
     = armed_client 1440000000000 1000"
proof -
  have raised: "fst (can_start_charge (armed_client 1440000000000 1000) 2000 ''ABC123'')
      = Inl OverflowError"
    by (simp add: can_start_charge_fst armed_client_def get_fast_change_protection_def)
  have armed: "get_fast_change_protection (armed_client 1 1000) ''ABC123'' = 1 \<and>
      last_charge_change (armed_client 1 1000) ''ABC123'' = Some 1000"
    by (simp add: armed_client_def get_fast_change_protection_def)
  show ?thesis
    using raised armed
      start_charging_never_arms [of "armed_client 1 1000" 30001000 "''ABC123''"
        "[(''ABC123'', sample_evse PNone 10 32 (PStr ''IDLE''))]" link_accepts None False 1 1000]
      start_charging_never_arms [of "armed_client 1 1000" 61001000 "''ABC123''"
        "[(''ABC123'', sample_evse PNone 10 32 (PStr ''IDLE''))]" link_accepts None False 1 1000]
      start_charging_never_arms [of "armed_client 1440000000000 1000" 2000 "''ABC123''"
        "[(''ABC123'', sample_evse PNone 10 32 (PStr ''IDLE''))]" link_accepts None False 1 1000]
    by simp
qed

text \<open>
  Claim C2. For a known device \<^verbatim>\<open>stop_charging\<close> forwards the stop to the link
  whatever the guard's state is, and returns what the link answers. It records the
  time of the stop for the serial when the link answers \<^verbatim>\<open>True\<close> and the state
  label of the device, read before the stop, was \<open>CHARGING\<close>; in every other case
  (the link answers \<^verbatim>\<open>False\<close> or raises, or the label was another) the client's
  fields are afterwards what they were.
\<close>

theorem stop_charging_records_only_real_stops:
  assumes "communicator_get_evse devices serial = Some e"
  shows "forwarded (stop_charging devices link self now serial) = [ChargeStop serial] \<and>
         ret (stop_charging devices link self now serial) = link (ChargeStop serial) \<and>
         (link (ChargeStop serial) = Inr True \<and> meta_state e = PStr ''CHARGING'' \<longrightarrow>
            client_after (stop_charging devices link self now serial)
              = self\<lparr>last_charge_change := (last_charge_change self)(serial \<mapsto> now)\<rparr>) \<and>
         (\<not> (link (ChargeStop serial) = Inr True \<and> meta_state e = PStr ''CHARGING'') \<longrightarrow>
            client_after (stop_charging devices link self now serial) = self)"
  using assms
  by (cases "link (ChargeStop serial)")
     (auto simp add: stop_charging_def Let_def record_charge_state_change_def)

theorem stop_charging_records_only_real_stops_witness:
  "forwarded (stop_charging [(''ABC123'', sample_evse PNone 10 32 (PStr ''CHARGING''))] link_accepts
       (armed_client 1 1000) 2000 ''ABC123'') = [ChargeStop ''ABC123''] \<and>
   last_charge_change (client_after (stop_charging [(''ABC123'', sample_evse PNone 10 32 (PStr ''CHARGING''))]
       link_accepts (armed_client 1 1000) 2000 ''ABC123'')) ''ABC123'' = Some 2000 \<and>
   client_after (stop_charging [(''ABC123'', sample_evse PNone 10 32 (PStr ''IDLE''))]
       link_accepts (armed_client 1 1000) 2000 ''ABC123'') = armed_client 1 1000 \<and>
   client_after (stop_charging [(''ABC123'', sample_evse PNone 10 32 (PStr ''CHARGING''))]
       link_refuses (armed_client 1 1000) 2000 ''ABC123'') = armed_client 1 1000"
proof -
  have known: "communicator_get_evse [(''ABC123'', d)] ''ABC123'' = Some d" for d
    by (simp add: communicator_get_evse_def)
  show ?thesis
    using stop_charging_records_only_real_stops [OF known,
        of "sample_evse PNone 10 32 (PStr ''CHARGING'')" link_accepts "armed_client 1 1000" 2000]
      stop_charging_records_only_real_stops [OF known,
        of "sample_evse PNone 10 32 (PStr ''IDLE'')" link_accepts "armed_client 1 1000" 2000]
      stop_charging_records_only_real_stops [OF known,
        of "sample_evse PNone 10 32 (PStr ''CHARGING'')" link_refuses "armed_client 1 1000" 2000]
    by (simp add: sample_evse_def link_accepts_def link_refuses_def)
qed

text \<open>
  Claim C9, as the spec states it: for a serial that the registry does not hold, no
  operation of the facade raises. \<^verbatim>\<open>start_charging\<close> does: it asks the guard on
  line 177 before it looks the device up on line 180, and with a protection of
  1440000000000 minutes and a stop recorded for the serial the guard raises
  \<^verbatim>\<open>OverflowError\<close>.
\<close>

theorem unknown_device_start_raises_counterexample:
  "communicator_get_evse [] ''ABC123'' = None \<and>
   ret (start_charging [] link_accepts (armed_client 1440000000000 1000) 2000 ''ABC123'' None False)
     = Inl OverflowError"
  by (simp add: start_charging_guard can_start_charge_fst armed_client_def
      get_fast_change_protection_def communicator_get_evse_def)

text \<open>
  Claim C9, amended. For a serial that the registry does not hold, \<^verbatim>\<open>login\<close>,
  \<^verbatim>\<open>stop_charging\<close>, \<^verbatim>\<open>set_max_current\<close>, \<^verbatim>\<open>set_name\<close> and \<^verbatim>\<open>sync_time\<close> return
  \<^verbatim>\<open>False\<close> (they do not raise), forward nothing and leave the client's fields as
  they were, and \<^verbatim>\<open>get_evse\<close> returns \<^verbatim>\<open>None\<close>. \<^verbatim>\<open>start_charging\<close> does the
  same whenever the guard does not raise: when the protection of the serial is \<open>0\<close>,
  when no stop is recorded for it, and when the protection \<open>m\<close> is a number of
  minutes that a \<^verbatim>\<open>timedelta\<close> can hold (\<open>-1439999998560 \<le> m < 1440000000000\<close>) and,
  before \<open>t0 + m * 60000000\<close>, the remaining time is a \<^verbatim>\<open>timedelta\<close>. With a stop
  recorded and \<open>m \<ge> 1440000000000\<close> it raises \<^verbatim>\<open>OverflowError\<close>, forwards nothing
  and leaves the client's fields as they were.
\<close>

theorem unknown_device_fails_quietly:
  assumes "communicator_get_evse devices serial = None"
  shows "login devices link self serial password
           = \<lparr>ret = Inr False, client_after = self, forwarded = []\<rparr> \<and>
         stop_charging devices link self now serial
           = \<lparr>ret = Inr False, client_after = self, forwarded = []\<rparr> \<and>
         set_max_current devices link self serial a
           = \<lparr>ret = Inr False, client_after = self, forwarded = []\<rparr> \<and>
         set_name devices link self serial new_name
           = \<lparr>ret = Inr False, client_after = self, forwarded = []\<rparr> \<and>
         sync_time devices link self serial
           = \<lparr>ret = Inr False, client_after = self, forwarded = []\<rparr> \<and>
         get_evse devices serial = None \<and>
         (get_fast_change_protection self serial = 0 \<or> last_charge_change self serial = None \<longrightarrow>
            start_charging devices link self now serial amps single_phase
              = \<lparr>ret = Inr False, client_after = self, forwarded = []\<rparr>) \<and>
         (get_fast_change_protection self serial = m \<and> last_charge_change self serial = Some t0
            \<and> - 1439999998560 \<le> m \<and> m < 1440000000000
            \<and> (t0 + m * 60000000 \<le> now
                 \<or> m * 60000000 - (now - t0) \<le> 86399999999999999999) \<longrightarrow>
            start_charging devices link self now serial amps single_phase
              = \<lparr>ret = Inr False, client_after = self, forwarded = []\<rparr>) \<and>
         (get_fast_change_protection self serial = m \<and> last_charge_change self serial = Some t0
            \<and> 1440000000000 \<le> m \<longrightarrow>
            start_charging devices link self now serial amps single_phase
              = \<lparr>ret = Inl OverflowError, client_after = self, forwarded = []\<rparr>)"
proof -
  have quiet: "start_charging devices link self now serial amps single_phase
      = \<lparr>ret = Inr False, client_after = self, forwarded = []\<rparr>"
    if "\<exists>b. fst (can_start_charge self now serial) = Inr b"
    using that assms by (auto simp add: start_charging_guard split: bool.split)
  have zero: "start_charging devices link self now serial amps single_phase
      = \<lparr>ret = Inr False, client_after = self, forwarded = []\<rparr>"
    if "get_fast_change_protection self serial = 0 \<or> last_charge_change self serial = None"
  proof (rule quiet)
    from that have "fst (can_start_charge self now serial) = Inr True"
      by (auto simp add: can_start_charge_fst)
    then show "\<exists>b. fst (can_start_charge self now serial) = Inr b" by blast
  qed
  have ranged: "start_charging devices link self now serial amps single_phase
      = \<lparr>ret = Inr False, client_after = self, forwarded = []\<rparr>"
    if "get_fast_change_protection self serial = m \<and> last_charge_change self serial = Some t0
            \<and> - 1439999998560 \<le> m \<and> m < 1440000000000
            \<and> (t0 + m * 60000000 \<le> now
                 \<or> m * 60000000 - (now - t0) \<le> 86399999999999999999)"
  proof (rule quiet)
    from that show "\<exists>b. fst (can_start_charge self now serial) = Inr b"
      by (auto simp add: can_start_charge_fst)
  qed
  have raised: "start_charging devices link self now serial amps single_phase
      = \<lparr>ret = Inl OverflowError, client_after = self, forwarded = []\<rparr>"
    if "get_fast_change_protection self serial = m \<and> last_charge_change self serial = Some t0
            \<and> 1440000000000 \<le> m"
  proof -
    from that have "fst (can_start_charge self now serial) = Inl OverflowError"
      by (simp add: can_start_charge_fst)
    then show ?thesis by (simp add: start_charging_guard)
  qed
  have others: "login devices link self serial password
           = \<lparr>ret = Inr False, client_after = self, forwarded = []\<rparr> \<and>
         stop_charging devices link self now serial
           = \<lparr>ret = Inr False, client_after = self, forwarded = []\<rparr> \<and>
         set_max_current devices link self serial a
           = \<lparr>ret = Inr False, client_after = self, forwarded = []\<rparr> \<and>
         set_name devices link self serial new_name
           = \<lparr>ret = Inr False, client_after = self, forwarded = []\<rparr> \<and>
         sync_time devices link self serial
           = \<lparr>ret = Inr False, client_after = self, forwarded = []\<rparr> \<and>
         get_evse devices serial = None"
    using assms
    by (simp add: login_def set_max_current_def set_name_def sync_time_def forward_to_def
        stop_charging_def get_evse_def)
  from others zero ranged raised show ?thesis by blast
qed

theorem unknown_device_fails_quietly_witness:
  "login [(''ABC123'', sample_evse PNone 10 32 (PStr ''IDLE''))] link_accepts (armed_client 1 1000)
       ''XYZ999'' ''secret''
     = \<lparr>ret = Inr False, client_after = armed_client 1 1000, forwarded = []\<rparr> \<and>
   stop_charging [(''ABC123'', sample_evse PNone 10 32 (PStr ''IDLE''))] link_accepts
       (armed_client 1 1000) 5000 ''XYZ999''
     = \<lparr>ret = Inr False, client_after = armed_client 1 1000, forwarded = []\<rparr> \<and>
   get_evse [(''ABC123'', sample_evse PNone 10 32 (PStr ''IDLE''))] ''XYZ999'' = None \<and>
   start_charging [(''ABC123'', sample_evse PNone 10 32 (PStr ''IDLE''))] link_accepts
       (armed_client 1 1000) 5000 ''XYZ999'' None False
     = \<lparr>ret = Inr False, client_after = armed_client 1 1000, forwarded = []\<rparr> \<and>
   start_charging [] link_accepts (armed_client 1 1000) 5000 ''ABC123'' None False
     = \<lparr>ret = Inr False, client_after = armed_client 1 1000, forwarded = []\<rparr> \<and>
   start_charging [] link_accepts (armed_client 1 1000) 60001000 ''ABC123'' None False
     = \<lparr>ret = Inr False, client_after = armed_client 1 1000, forwarded = []\<rparr> \<and>
   start_charging [] link_accepts (armed_client 1440000000000 1000) 2000 ''ABC123'' None False
     = \<lparr>ret = Inl OverflowError, client_after = armed_client 1440000000000 1000, forwarded = []\<rparr>"
proof -
  have unknown: "communicator_get_evse [(''ABC123'', d)] ''XYZ999'' = None" for d
    by (simp add: communicator_get_evse_def)
  have empty: "communicator_get_evse [] ''ABC123'' = None"
    by (simp add: communicator_get_evse_def)
  have fresh: "last_charge_change (armed_client 1 1000) ''XYZ999'' = None"
    by (simp add: armed_client_def)
  have armed: "get_fast_change_protection (armed_client m 1000) ''ABC123'' = m \<and>
      last_charge_change (armed_client m 1000) ''ABC123'' = Some 1000" for m
    by (simp add: armed_client_def get_fast_change_protection_def)
  show ?thesis
    using fresh armed [of 1] armed [of 1440000000000]
      unknown_device_fails_quietly [OF unknown,
        of "sample_evse PNone 10 32 (PStr ''IDLE'')" link_accepts "armed_client 1 1000"
           "''secret''" 5000 0 "''x''" None False 1 1000]
      unknown_device_fails_quietly [OF empty,
        of link_accepts "armed_client 1 1000" "''secret''" 5000 0 "''x''" None False 1 1000]
      unknown_device_fails_quietly [OF empty,
        of link_accepts "armed_client 1 1000" "''secret''" 60001000 0 "''x''" None False 1 1000]
      unknown_device_fails_quietly [OF empty,
        of link_accepts "armed_client 1440000000000 1000" "''secret''" 2000 0 "''x''" None False
           1440000000000 1000]
    by simp
qed

section \<open>The polling coordinator\<close>

lemma async_update_data_success: "async_update_data self (Inr evses) = Inr evses"
  by (simp add: async_update_data_def)

lemma async_update_data_failure:
  "async_update_data self (Inl err) = Inr (case data self of Some d \<Rightarrow> d | None \<Rightarrow> [])"
  by (simp add: async_update_data_def split: option.split)

lemma data_poll_tick:
  "data (poll_tick self fetched) =
     Some (case fetched of
             Inr evses \<Rightarrow> evses
           | Inl err \<Rightarrow> (case data self of Some d \<Rightarrow> d | None \<Rightarrow> []))"
  by (cases fetched)
     (simp_all add: poll_tick_def async_update_data_success async_update_data_failure)

lemma poll_ticks_Cons: "poll_ticks self (f # fs) = poll_ticks (poll_tick self f) fs"
  by (simp add: poll_ticks_def)

lemma poll_ticks_all_failed:
  "last_successful fs = None \<Longrightarrow> data self = Some d \<Longrightarrow> data (poll_ticks self fs) = Some d"
proof (induction fs arbitrary: self)
  case Nil
  then show ?case by (simp add: poll_ticks_def)
next
  case (Cons f fs)
  from Cons.prems(1) have rest: "last_successful fs = None" and f: "\<exists>err. f = Inl err"
    by (auto split: option.splits sum.splits)
  from f Cons.prems(2) have "data (poll_tick self f) = Some d"
    by (auto simp add: data_poll_tick)
  with rest show ?case
    unfolding poll_ticks_Cons by (rule Cons.IH)
qed

lemma poll_ticks_last_successful:
  "last_successful fs = Some d \<Longrightarrow> data (poll_ticks self fs) = Some d"
proof (induction fs arbitrary: self)
  case Nil
  then show ?case by simp
next
  case (Cons f fs)
  show ?case
  proof (cases "last_successful fs")
    case None
    with Cons.prems have "f = Inr d" by (simp split: sum.splits)
    then have "data (poll_tick self f) = Some d" by (simp add: data_poll_tick)
    with None show ?thesis
      unfolding poll_ticks_Cons by (rule poll_ticks_all_failed)
  next
    case (Some d')
    with Cons.prems have "last_successful fs = Some d" by simp
    then show ?thesis unfolding poll_ticks_Cons by (rule Cons.IH)
  qed
qed

lemma poll_ticks_none_successful:
  "last_successful fs = None \<Longrightarrow> data self = None \<Longrightarrow>
   data (poll_ticks self fs) = (if fs = [] then None else Some [])"
proof (induction fs arbitrary: self)
  case Nil
  then show ?case by (simp add: poll_ticks_def)
next
  case (Cons f fs)
  from Cons.prems(1) have rest: "last_successful fs = None" and f: "\<exists>err. f = Inl err"
    by (auto split: option.splits sum.splits)
  from f Cons.prems(2) have first: "data (poll_tick self f) = Some []"
    by (auto simp add: data_poll_tick)
  have "data (poll_ticks (poll_tick self f) fs) = Some []"
    using rest first by (rule poll_ticks_all_failed)
  then show ?case by (simp add: poll_ticks_Cons)
qed

text \<open>
  Claim C6. On every poll tick whose fetch raises, the first one included,
  \<^verbatim>\<open>_async_update_data\<close> returns (it does not raise) and the tick publishes the
  mapping published before, unchanged, or the empty mapping when nothing has been
  published; the tick counts as a success. After any ticks of which at least one
  fetch succeeded, the mapping published on a failure is the mapping of the last
  fetch that succeeded; after ticks that all failed, from a new coordinator, it is
  the empty mapping. When the fetch succeeds, the tick publishes the mapping fetched,
  the empty mapping too.
\<close>

theorem failed_fetch_republishes:
  "async_update_data self (Inl err) = Inr (case data self of Some d \<Rightarrow> d | None \<Rightarrow> []) \<and>
   poll_tick self (Inl err)
     = self\<lparr>data := Some (case data self of Some d \<Rightarrow> d | None \<Rightarrow> []),
            last_update_success := True\<rparr> \<and>
   (last_successful fetches = Some d \<longrightarrow>
      async_update_data (poll_ticks self fetches) (Inl err) = Inr d \<and>
      data (poll_tick (poll_ticks self fetches) (Inl err)) = Some d) \<and>
   (last_successful fetches = None \<longrightarrow>
      async_update_data (poll_ticks new_coordinator fetches) (Inl err) = Inr [] \<and>
      data (poll_tick (poll_ticks new_coordinator fetches) (Inl err)) = Some []) \<and>
   async_update_data self (Inr evses) = Inr evses \<and>
   data (poll_tick self (Inr evses)) = Some evses \<and>
   async_update_data self (Inr []) = Inr [] \<and>
   data (poll_tick self (Inr [])) = Some []"
proof -
  have tick: "poll_tick self (Inl err)
     = self\<lparr>data := Some (case data self of Some d \<Rightarrow> d | None \<Rightarrow> []),
            last_update_success := True\<rparr>"
    by (simp add: poll_tick_def async_update_data_failure)
  have none: "data (poll_ticks new_coordinator fetches) = (if fetches = [] then None else Some [])"
    if "last_successful fetches = None"
    using that by (rule poll_ticks_none_successful) (simp add: new_coordinator_def)
  show ?thesis
    using tick none
    by (simp add: async_update_data_success async_update_data_failure data_poll_tick
        poll_ticks_last_successful)
qed

theorem failed_fetch_republishes_witness:
  "async_update_data new_coordinator (Inl (PyException ''timeout'')) = Inr [] \<and>
   data (poll_tick new_coordinator (Inl (PyException ''timeout''))) = Some [] \<and>
   async_update_data (poll_ticks new_coordinator [Inr one_device]) (Inl (PyException ''timeout''))
     = Inr one_device \<and>
   data (poll_ticks new_coordinator [Inr one_device, Inl (PyException ''timeout''),
       Inl (PyException ''timeout'')]) = Some one_device \<and>
   one_device \<noteq> [] \<and>
   data (poll_tick (poll_ticks new_coordinator [Inr one_device]) (Inr [])) = Some []"
proof -
  have last: "last_successful [Inr one_device] = Some one_device" by simp
  have none: "last_successful [] = None" by simp
  have start: "poll_ticks new_coordinator [] = new_coordinator"
    by (simp add: poll_ticks_def)
  have unpublished: "data new_coordinator = None"
    by (simp add: new_coordinator_def)
  have pub: "data (poll_ticks new_coordinator [Inr one_device]) = Some one_device"
    by (simp add: poll_ticks_def data_poll_tick)
  have ticks: "poll_ticks new_coordinator [Inr one_device, Inl (PyException ''timeout''),
       Inl (PyException ''timeout'')]
     = poll_tick (poll_tick (poll_ticks new_coordinator [Inr one_device])
         (Inl (PyException ''timeout''))) (Inl (PyException ''timeout''))"
    by (simp add: poll_ticks_def)
  have nonempty: "one_device \<noteq> []"
    by (simp add: one_device_def get_all_evses_def)
  have first: "async_update_data new_coordinator (Inl (PyException ''timeout'')) = Inr [] \<and>
      data (poll_tick new_coordinator (Inl (PyException ''timeout''))) = Some []"
    using none start unpublished
      failed_fetch_republishes [of new_coordinator "PyException ''timeout''" "[]" "[]" "[]"]
    by simp
  have later: "async_update_data (poll_ticks new_coordinator [Inr one_device])
        (Inl (PyException ''timeout'')) = Inr one_device \<and>
      data (poll_tick (poll_ticks new_coordinator [Inr one_device])
        (Inl (PyException ''timeout''))) = Some one_device"
    using last
      failed_fetch_republishes [of new_coordinator "PyException ''timeout''" "[Inr one_device]"
        one_device "[]"]
    by simp
  have again: "data (poll_tick (poll_tick (poll_ticks new_coordinator [Inr one_device])
         (Inl (PyException ''timeout''))) (Inl (PyException ''timeout''))) = Some one_device"
    using later
    by (simp add: data_poll_tick)
  have empty: "data (poll_tick (poll_ticks new_coordinator [Inr one_device]) (Inr [])) = Some []"
    using failed_fetch_republishes [of "poll_ticks new_coordinator [Inr one_device]"
        "PyException ''timeout''" "[]" "[]" "[]"]
    by simp
  from first later again empty nonempty ticks show ?thesis by simp
qed

text \<open>
  Claim C7, as the spec states it: after any sequence of poll ticks the stored state
  tells a last fetch that failed from a last fetch that succeeded with the empty
  mapping. It does not: from a new coordinator, a tick whose fetch fails and a tick
  whose fetch succeeds with the empty mapping end in the same stored state, and so do
  the two after a first empty fetch.
\<close>

theorem poll_outcomes_indistinguishable_counterexample:
  "poll_ticks new_coordinator [Inl (PyException ''timeout'')] = poll_ticks new_coordinator [Inr []] \<and>
   poll_ticks new_coordinator [Inr [], Inl (PyException ''timeout'')]
     = poll_ticks new_coordinator [Inr [], Inr []]"
  by (simp add: poll_ticks_def poll_tick_def async_update_data_def new_coordinator_def)

text \<open>
  Claim C7, amended. The stored state after a tick holds the published mapping and
  the flag of the base class, which stays set because \<^verbatim>\<open>_async_update_data\<close> does
  not raise. A tick whose fetch failed leaves the stored state that a successful
  fetch of the mapping published before (the empty mapping when nothing was
  published) leaves. So a failed tick and a successful empty fetch leave different
  stored states exactly when the mapping published before was not empty.
\<close>

theorem failed_tick_stores_republished_mapping:
  "poll_tick self (Inl err)
     = poll_tick self (Inr (case data self of Some d \<Rightarrow> d | None \<Rightarrow> [])) \<and>
   (poll_tick self (Inl err) = poll_tick self (Inr [])) = (data self = None \<or> data self = Some [])"
proof -
  have republish: "poll_tick self (Inl err)
      = poll_tick self (Inr (case data self of Some d \<Rightarrow> d | None \<Rightarrow> []))"
    by (simp add: poll_tick_def async_update_data_success async_update_data_failure)
  have same: "(poll_tick self (Inl err) = poll_tick self (Inr []))
      = (data self = None \<or> data self = Some [])"
  proof
    assume eq: "poll_tick self (Inl err) = poll_tick self (Inr [])"
    have "data (poll_tick self (Inl err)) = data (poll_tick self (Inr []))"
      using eq by simp
    then have "(case data self of Some d \<Rightarrow> d | None \<Rightarrow> []) = []"
      by (simp add: data_poll_tick)
    then show "data self = None \<or> data self = Some []"
      by (cases "data self") simp_all
  next
    assume "data self = None \<or> data self = Some []"
    then have "(case data self of Some d \<Rightarrow> d | None \<Rightarrow> []) = []"
      by auto
    with republish show "poll_tick self (Inl err) = poll_tick self (Inr [])"
      by simp
  qed
  from republish same show ?thesis by simp
qed

theorem failed_tick_stores_republished_mapping_witness:
  "poll_tick new_coordinator (Inl (PyException ''timeout'')) = poll_tick new_coordinator (Inr []) \<and>
   poll_tick (poll_tick new_coordinator (Inr one_device)) (Inl (PyException ''timeout''))
     = poll_tick (poll_tick new_coordinator (Inr one_device)) (Inr one_device) \<and>
   poll_tick (poll_tick new_coordinator (Inr one_device)) (Inl (PyException ''timeout''))
     \<noteq> poll_tick (poll_tick new_coordinator (Inr one_device)) (Inr [])"
proof -
  have nonempty: "one_device \<noteq> []"
    by (simp add: one_device_def get_all_evses_def)
  have pub: "data (poll_tick new_coordinator (Inr one_device)) = Some one_device"
    by (simp add: data_poll_tick)
  have none: "data new_coordinator = None"
    by (simp add: new_coordinator_def)
  have first: "poll_tick new_coordinator (Inl (PyException ''timeout''))
      = poll_tick new_coordinator (Inr [])"
    using none failed_tick_stores_republished_mapping [of new_coordinator "PyException ''timeout''"]
    by simp
  have second: "poll_tick (poll_tick new_coordinator (Inr one_device)) (Inl (PyException ''timeout''))
      = poll_tick (poll_tick new_coordinator (Inr one_device)) (Inr one_device)"
    using pub failed_tick_stores_republished_mapping
      [of "poll_tick new_coordinator (Inr one_device)" "PyException ''timeout''"]
    by simp
  have third: "poll_tick (poll_tick new_coordinator (Inr one_device)) (Inl (PyException ''timeout''))
      \<noteq> poll_tick (poll_tick new_coordinator (Inr one_device)) (Inr [])"
  proof -
    have "\<not> (data (poll_tick new_coordinator (Inr one_device)) = None \<or>
        data (poll_tick new_coordinator (Inr one_device)) = Some [])"
      using pub nonempty by simp
    then show ?thesis
      using failed_tick_stores_republished_mapping
        [of "poll_tick new_coordinator (Inr one_device)" "PyException ''timeout''"]
      by blast
  qed
  from first second third show ?thesis by (intro conjI)
qed

end
